theory Spec2Isabelle
  imports Complex_Main "HOL-Library.Char_ord" "HOL-Library.List_Lexorder"
begin

section \<open>Values of the Python program\<close>

text \<open>
  A Python \<open>float\<close>. \<open>Fin q\<close> stands for the binary64 value nearest to the rational
  \<open>q\<close>; rounding of the mantissa is not modelled, so comparisons are those of the exact
  values. The three special values are kept apart, because \<open>float()\<close> and
  \<open>json.loads\<close> produce them and every comparison with \<open>NaN\<close> is false.
\<close>

datatype pyfloat = Fin rat | PosInf | NegInf | NaN

text \<open>
  The exceptions that occur. \<open>JSONDecodeError\<close> and \<open>TomlDecodeError\<close> are subclasses
  of \<open>ValueError\<close> in Python. \<open>Unrepresentable\<close> is not a Python exception: text is
  modelled with 8-bit characters (the code points U+0000 to U+00FF), and the JSON
  decoder gives this value where an escape \<open>\uXXXX\<close> denotes a larger code point, so
  that the model says nothing about such a payload. Recursion depth and memory are
  taken as unbounded.
\<close>

datatype exn =
    JSONDecodeError | ValueError | TypeError | OverflowError | KeyError
  | OSError | TomlDecodeError | SystemExit nat | Unrepresentable

text \<open>\<open>a < b\<close> and \<open>a <= b\<close> on floats.\<close>

fun float_lt :: "pyfloat \<Rightarrow> pyfloat \<Rightarrow> bool" where
  "float_lt NaN b = False"
| "float_lt a NaN = False"
| "float_lt (Fin a) (Fin b) = (a < b)"
| "float_lt (Fin a) PosInf = True"
| "float_lt (Fin a) NegInf = False"
| "float_lt PosInf b = False"
| "float_lt NegInf NegInf = False"
| "float_lt NegInf b = True"

fun float_le :: "pyfloat \<Rightarrow> pyfloat \<Rightarrow> bool" where
  "float_le NaN b = False"
| "float_le a NaN = False"
| "float_le (Fin a) (Fin b) = (a \<le> b)"
| "float_le (Fin a) PosInf = True"
| "float_le (Fin a) NegInf = False"
| "float_le PosInf PosInf = True"
| "float_le PosInf b = False"
| "float_le NegInf b = True"

text \<open>
  \<open>min(prices)\<close> on a non-empty list: the builtin keeps the first element and replaces
  it by a later one only when that one is strictly smaller.
\<close>

fun min_from :: "pyfloat \<Rightarrow> pyfloat list \<Rightarrow> pyfloat" where
  "min_from m [] = m"
| "min_from m (x # xs) = min_from (if float_lt x m then x else m) xs"

text \<open>Truthiness of \<open>item['lowest_price']\<close>: \<open>None\<close> and zero are false.\<close>

fun truthy :: "pyfloat option \<Rightarrow> bool" where
  "truthy None = False"
| "truthy (Some (Fin q)) = (q \<noteq> 0)"
| "truthy (Some v) = True"

text \<open>
  The binary64 value of a decimal: at or beyond \<open>2^1024 - 2^970\<close> (half way between
  the largest finite value and \<open>2^1024\<close>) it is an infinity, at or below \<open>2^-1075\<close>
  (half of the smallest subnormal) it is zero.
\<close>

definition to_double :: "rat \<Rightarrow> pyfloat" where
  "to_double q =
     (if 2 ^ 1024 - 2 ^ 970 \<le> \<bar>q\<bar> then (if 0 < q then PosInf else NegInf)
      else if \<bar>q\<bar> \<le> 1 / 2 ^ 1075 then Fin 0
      else Fin q)"

section \<open>Text\<close>

text \<open>\<open>s.replace(old, new)\<close>: the occurrences of \<open>old\<close> from left to right, not overlapping.\<close>

fun replace :: "string \<Rightarrow> string \<Rightarrow> string \<Rightarrow> string" where
  "replace old new [] = (if old = [] then new else [])"
| "replace old new (c # cs) =
     (if old = [] then new @ c # replace old new cs
      else if take (length old) (c # cs) = old
           then new @ replace old new (drop (length old) (c # cs))
           else c # replace old new cs)"

text \<open>
  \<open>s.strip()\<close> removes the characters for which \<open>str.isspace\<close> holds; among the
  8-bit characters these are U+0009 to U+000D, U+001C to U+0020, U+0085 and U+00A0.
\<close>

definition isspace :: "char \<Rightarrow> bool" where
  "isspace c =
     (let n = (of_char c :: nat)
      in (9 \<le> n \<and> n \<le> 13) \<or> (28 \<le> n \<and> n \<le> 32) \<or> n = 133 \<or> n = 160)"

definition strip :: "string \<Rightarrow> string" where
  "strip s = rev (dropWhile isspace (rev (dropWhile isspace s)))"

text \<open>\<open>key in s\<close> for two strings: \<open>key\<close> occurs in \<open>s\<close>.\<close>

fun is_substring :: "string \<Rightarrow> string \<Rightarrow> bool" where
  "is_substring key [] = (key = [])"
| "is_substring key (c # cs) = (take (length key) (c # cs) = key \<or> is_substring key cs)"

definition is_digit :: "char \<Rightarrow> bool" where
  "is_digit c = (48 \<le> (of_char c :: nat) \<and> (of_char c :: nat) \<le> 57)"

definition nat_of_digits :: "string \<Rightarrow> nat" where
  "nat_of_digits ds = foldl (\<lambda>n c. 10 * n + (of_char c - 48)) 0 ds"

text \<open>
  The float written with the digits \<open>ip\<close> before the point, the digits \<open>fp\<close> after
  it and the exponent \<open>e\<close>.
\<close>

definition decimal :: "bool \<Rightarrow> string \<Rightarrow> string \<Rightarrow> int \<Rightarrow> pyfloat" where
  "decimal neg ip fp e =
     (let m = (of_nat (nat_of_digits (ip @ fp)) :: rat) / 10 ^ length fp;
          v = (if 0 \<le> e then m * 10 ^ nat e else m / 10 ^ nat (- e))
      in to_double (if neg then - v else v))"

definition scan_sign :: "string \<Rightarrow> bool \<times> string" where
  "scan_sign s =
     (case s of
        [] \<Rightarrow> (False, [])
      | c # t \<Rightarrow>
          if c = CHR ''-'' then (True, t) else if c = CHR ''+'' then (False, t) else (False, s))"

section \<open>Decoded JSON\<close>

text \<open>
  What \<open>json.loads\<close> returns. A \<open>dict\<close> is the list of its items in insertion order,
  with distinct keys.
\<close>

datatype json =
    JNull | JBool bool | JInt int | JFloat pyfloat | JString string
  | JArray "json list" | JObject "(string \<times> json) list"

text \<open>\<open>d[k] = v\<close>: an existing key keeps its place and takes the new value.\<close>

fun dict_set :: "'k \<Rightarrow> 'v \<Rightarrow> ('k \<times> 'v) list \<Rightarrow> ('k \<times> 'v) list" where
  "dict_set k v [] = [(k, v)]"
| "dict_set k v (p # ps) = (if fst p = k then (k, v) # ps else p # dict_set k v ps)"

text \<open>\<open>v.strip() if isinstance(v, str) else v\<close>.\<close>

definition strip_value :: "json \<Rightarrow> json" where
  "strip_value v = (case v of JString s \<Rightarrow> JString (strip s) | _ \<Rightarrow> v)"

lemma size_strip_value [termination_simp]: "size (strip_value v) = size v"
  by (cases v) (simp_all add: strip_value_def)

text \<open>
  \<open>_strip_recursive\<close>. The dictionary comprehension inserts the stripped keys in the
  order of the items, so of two keys that become equal the later value stays.
\<close>

fun strip_recursive :: "json \<Rightarrow> json" where
  "strip_recursive (JObject kvs) =
     JObject (foldl (\<lambda>d kv. dict_set (fst kv) (snd kv) d) []
        (map (\<lambda>kv. (strip (fst kv), strip_recursive (strip_value (snd kv)))) kvs))"
| "strip_recursive (JArray xs) = JArray (map strip_recursive xs)"
| "strip_recursive v = v"

section \<open>json.loads\<close>

text \<open>
  The decoder of the standard library, as its scanner reads a text: the whitespace of
  JSON, strings with their escapes, numbers, the literals (\<open>NaN\<close>, \<open>Infinity\<close> and
  \<open>-Infinity\<close> among them), arrays and objects.
\<close>

definition json_ws :: "char \<Rightarrow> bool" where
  "json_ws c = (c = CHR '' '' \<or> c = CHR 0x09 \<or> c = CHR 0x0A \<or> c = CHR 0x0D)"

definition skip_ws :: "string \<Rightarrow> string" where
  "skip_ws s = dropWhile json_ws s"

definition hex_val :: "char \<Rightarrow> nat option" where
  "hex_val c =
     (let n = (of_char c :: nat) in
      if 48 \<le> n \<and> n \<le> 57 then Some (n - 48)
      else if 97 \<le> n \<and> n \<le> 102 then Some (n - 87)
      else if 65 \<le> n \<and> n \<le> 70 then Some (n - 55)
      else None)"

fun hex4 :: "string \<Rightarrow> nat option" where
  "hex4 [a, b, c, d] =
     (case (hex_val a, hex_val b, hex_val c, hex_val d) of
        (Some x, Some y, Some z, Some w) \<Rightarrow> Some (((x * 16 + y) * 16 + z) * 16 + w)
      | _ \<Rightarrow> None)"
| "hex4 _ = None"

definition unescape :: "char \<Rightarrow> char option" where
  "unescape e =
     (if e = CHR 0x22 then Some (CHR 0x22)
      else if e = CHR 0x5C then Some (CHR 0x5C)
      else if e = CHR ''/'' then Some (CHR ''/'')
      else if e = CHR ''b'' then Some (CHR 0x08)
      else if e = CHR ''f'' then Some (CHR 0x0C)
      else if e = CHR ''n'' then Some (CHR 0x0A)
      else if e = CHR ''r'' then Some (CHR 0x0D)
      else if e = CHR ''t'' then Some (CHR 0x09)
      else None)"

definition prepend :: "char \<Rightarrow> exn + (string \<times> string) \<Rightarrow> exn + (string \<times> string)" where
  "prepend c r = (case r of Inl e \<Rightarrow> Inl e | Inr (str, rest) \<Rightarrow> Inr (c # str, rest))"

text \<open>
  A string, read from behind its opening quote: the decoded text and what follows the
  closing quote. A control character, an unknown escape and a missing closing quote
  are errors.
\<close>

function scanstring :: "string \<Rightarrow> exn + (string \<times> string)" where
  "scanstring [] = Inl JSONDecodeError"
| "scanstring (c # cs) =
     (if c = CHR 0x22 then Inr ([], cs)
      else if c = CHR 0x5C then
        (case cs of
           [] \<Rightarrow> Inl JSONDecodeError
         | e # r \<Rightarrow>
             if e = CHR ''u'' then
               (case hex4 (take 4 r) of
                  None \<Rightarrow> Inl JSONDecodeError
                | Some n \<Rightarrow>
                    if n < 256 then prepend (char_of n) (scanstring (drop 4 r))
                    else Inl Unrepresentable)
             else
               (case unescape e of
                  None \<Rightarrow> Inl JSONDecodeError
                | Some ch \<Rightarrow> prepend ch (scanstring r)))
      else if (of_char c :: nat) < 32 then Inl JSONDecodeError
      else prepend c (scanstring cs))"
  by pat_completeness auto
termination
  by (relation "measure length") auto

text \<open>
  A number: an optional minus, \<open>0\<close> or a digit string without leading zero, a fraction
  when a point and a digit follow, an exponent when \<open>e\<close> or \<open>E\<close>, an optional sign and a
  digit follow. Without fraction and exponent it is an \<open>int\<close> (more than 4300 digits
  are refused with \<open>ValueError\<close>, the interpreter's default limit), otherwise a float.
\<close>

definition scan_frac :: "string \<Rightarrow> string \<times> string" where
  "scan_frac s =
     (case s of
        p # q # t \<Rightarrow>
          if p = CHR ''.'' \<and> is_digit q
          then (takeWhile is_digit (q # t), dropWhile is_digit (q # t))
          else ([], s)
      | _ \<Rightarrow> ([], s))"

definition scan_exp :: "string \<Rightarrow> int option \<times> string" where
  "scan_exp s =
     (case s of
        [] \<Rightarrow> (None, s)
      | e # t \<Rightarrow>
          if e = CHR ''e'' \<or> e = CHR ''E'' then
            (let (neg, t1) = scan_sign t in
             if t1 \<noteq> [] \<and> is_digit (hd t1)
             then (Some ((if neg then - 1 else 1) * int (nat_of_digits (takeWhile is_digit t1))),
                   dropWhile is_digit t1)
             else (None, s))
          else (None, s))"

definition scan_number :: "string \<Rightarrow> exn + (json \<times> string)" where
  "scan_number s =
     (let neg = (s \<noteq> [] \<and> hd s = CHR ''-'');
          s1 = (if neg then tl s else s)
      in case s1 of
           [] \<Rightarrow> Inl JSONDecodeError
         | d # r \<Rightarrow>
             if \<not> is_digit d then Inl JSONDecodeError
             else
               (let ip = (if d = CHR ''0'' then [d] else d # takeWhile is_digit r);
                    (fp, r2) = scan_frac (drop (length ip) s1);
                    (ex, r3) = scan_exp r2
                in if fp = [] \<and> ex = None
                   then (if 4300 < length ip then Inl ValueError
                         else Inr (JInt ((if neg then - 1 else 1) * int (nat_of_digits ip)), r3))
                   else Inr (JFloat (decimal neg ip fp (case ex of None \<Rightarrow> 0 | Some e \<Rightarrow> e)), r3)))"

text \<open>Every scan consumes text: the measure of the decoder below.\<close>

lemma skip_ws_length: "skip_ws s = d # r \<Longrightarrow> length r < length s"
proof -
  assume "skip_ws s = d # r"
  then have "length (d # r) \<le> length s"
    unfolding skip_ws_def by (metis length_dropWhile_le)
  then show ?thesis by simp
qed

lemma skip_ws_length_le: "length (skip_ws s) \<le> length s"
  by (simp add: skip_ws_def length_dropWhile_le)

lemma scanstring_length: "scanstring s = Inr (str, r) \<Longrightarrow> length r < length s"
proof (induction s arbitrary: str r rule: scanstring.induct)
  case 1
  then show ?case by simp
next
  case (2 c cs)
  then show ?case
    by (fastforce simp: prepend_def split: if_splits list.splits option.splits sum.splits)
qed

lemma scan_frac_length: "scan_frac s = (fp, r) \<Longrightarrow> length r \<le> length s"
  by (auto simp: scan_frac_def split: list.splits if_splits
           intro: le_trans [OF length_dropWhile_le])

lemma scan_exp_length: "scan_exp s = (ex, r) \<Longrightarrow> length r \<le> length s"
  by (auto simp: scan_exp_def scan_sign_def Let_def split: list.splits if_splits
           intro: le_trans [OF length_dropWhile_le])

lemma scan_number_length:
  assumes "scan_number s = Inr (v, r)"
  shows "length r < length s"
proof -
  define s1 where "s1 = (if s \<noteq> [] \<and> hd s = CHR ''-'' then tl s else s)"
  have l1: "length s1 \<le> length s"
    by (simp add: s1_def)
  from assms obtain d r0 where s1: "s1 = d # r0"
    by (auto simp: scan_number_def s1_def Let_def split: list.splits if_splits)
  define ip where "ip = (if d = CHR ''0'' then [d] else d # takeWhile is_digit r0)"
  obtain n where ip: "length ip = Suc n"
    by (cases ip) (auto simp: ip_def split: if_splits)
  obtain fp r2 where fr: "scan_frac (drop (length ip) s1) = (fp, r2)"
    by (cases "scan_frac (drop (length ip) s1)")
  obtain ex r3 where ex: "scan_exp r2 = (ex, r3)"
    by (cases "scan_exp r2")
  from assms s1 fr ex have "r = r3"
    unfolding scan_number_def s1_def [symmetric] ip_def [symmetric] Let_def
    by (auto simp: ip_def [symmetric] split: if_splits)
  moreover have "length r3 \<le> length s1 - length ip"
    using scan_frac_length [OF fr] scan_exp_length [OF ex] by simp
  moreover have "length s1 = Suc (length r0)"
    by (simp add: s1)
  ultimately show ?thesis
    using ip l1 by simp
qed

text \<open>
  The decoder proper, with the containers it is inside of on a stack: \<open>scan_once\<close>
  reads a value that starts at the head of the text, \<open>finish_value\<close> gives a finished
  value to the innermost open container (or, with none open, checks that only
  whitespace is left), \<open>scan_key\<close> reads a key, the colon and the value of an object.
\<close>

datatype frame = ArrayFrame "json list" | ObjectFrame "(string \<times> json) list" string

function scan_once :: "frame list \<Rightarrow> string \<Rightarrow> exn + json"
  and finish_value :: "json \<Rightarrow> frame list \<Rightarrow> string \<Rightarrow> exn + json"
  and scan_key :: "(string \<times> json) list \<Rightarrow> frame list \<Rightarrow> string \<Rightarrow> exn + json" where
  "scan_once st [] = Inl JSONDecodeError"
| "scan_once st (c # cs) =
     (if c = CHR 0x22 then
        (case scanstring cs of
           Inl e \<Rightarrow> Inl e
         | Inr (str, r) \<Rightarrow> finish_value (JString str) st r)
      else if c = CHR ''{'' then
        (case skip_ws cs of
           [] \<Rightarrow> Inl JSONDecodeError
         | d # r \<Rightarrow>
             if d = CHR ''}'' then finish_value (JObject []) st r
             else scan_key [] st (d # r))
      else if c = CHR ''['' then
        (case skip_ws cs of
           [] \<Rightarrow> Inl JSONDecodeError
         | d # r \<Rightarrow>
             if d = CHR '']'' then finish_value (JArray []) st r
             else scan_once (ArrayFrame [] # st) (d # r))
      else if c = CHR ''n'' \<and> take 3 cs = ''ull'' then finish_value JNull st (drop 3 cs)
      else if c = CHR ''t'' \<and> take 3 cs = ''rue'' then finish_value (JBool True) st (drop 3 cs)
      else if c = CHR ''f'' \<and> take 4 cs = ''alse'' then finish_value (JBool False) st (drop 4 cs)
      else if c = CHR ''N'' \<and> take 2 cs = ''aN'' then finish_value (JFloat NaN) st (drop 2 cs)
      else if c = CHR ''I'' \<and> take 7 cs = ''nfinity''
        then finish_value (JFloat PosInf) st (drop 7 cs)
      else if c = CHR ''-'' \<and> take 8 cs = ''Infinity''
        then finish_value (JFloat NegInf) st (drop 8 cs)
      else
        (case scan_number (c # cs) of
           Inl e \<Rightarrow> Inl e
         | Inr (v, r) \<Rightarrow> finish_value v st r))"
| "finish_value v [] s = (if skip_ws s = [] then Inr v else Inl JSONDecodeError)"
| "finish_value v (ArrayFrame acc # st) s =
     (case skip_ws s of
        [] \<Rightarrow> Inl JSONDecodeError
      | d # r \<Rightarrow>
          if d = CHR '']'' then finish_value (JArray (acc @ [v])) st r
          else if d = CHR '','' then scan_once (ArrayFrame (acc @ [v]) # st) (skip_ws r)
          else Inl JSONDecodeError)"
| "finish_value v (ObjectFrame d key # st) s =
     (case skip_ws s of
        [] \<Rightarrow> Inl JSONDecodeError
      | c # r \<Rightarrow>
          if c = CHR ''}'' then finish_value (JObject (dict_set key v d)) st r
          else if c = CHR '','' then scan_key (dict_set key v d) st (skip_ws r)
          else Inl JSONDecodeError)"
| "scan_key d st [] = Inl JSONDecodeError"
| "scan_key d st (c # cs) =
     (if c \<noteq> CHR 0x22 then Inl JSONDecodeError
      else
        (case scanstring cs of
           Inl e \<Rightarrow> Inl e
         | Inr (key, r) \<Rightarrow>
             (case skip_ws r of
                [] \<Rightarrow> Inl JSONDecodeError
              | c2 # r2 \<Rightarrow>
                  if c2 = CHR '':'' then scan_once (ObjectFrame d key # st) (skip_ws r2)
                  else Inl JSONDecodeError)))"
  by pat_completeness auto
termination
  apply (relation "measure (\<lambda>x. case x of
           Inl (st, s) \<Rightarrow> length s
         | Inr (Inl (v, st, s)) \<Rightarrow> length s
         | Inr (Inr (d, st, s)) \<Rightarrow> length s)")
  apply (auto dest: scanstring_length skip_ws_length scan_number_length)
  subgoal for s r using skip_ws_length_le [of r] skip_ws_length [of s _ r] by simp
  subgoal for s r using skip_ws_length_le [of r] skip_ws_length [of s _ r] by simp
  subgoal for cs key r r2
    using skip_ws_length_le [of r2] skip_ws_length [of r _ r2] scanstring_length [of cs key r]
    by simp
  done

definition json_loads :: "string \<Rightarrow> exn + json" where
  "json_loads s = scan_once [] (skip_ws s)"

section \<open>float()\<close>

text \<open>
  \<open>float(s)\<close> for a string: whitespace around the text is dropped (U+0009 to U+000D,
  the space, and U+0085 and U+00A0, which the conversion first turns into spaces),
  an underscore is allowed between two digits, and what is left is a signed decimal
  with optional fraction and exponent, or \<open>inf\<close>, \<open>infinity\<close> or \<open>nan\<close> in any case.
\<close>

definition float_space :: "char \<Rightarrow> bool" where
  "float_space c =
     (let n = (of_char c :: nat) in (9 \<le> n \<and> n \<le> 13) \<or> n = 32 \<or> n = 133 \<or> n = 160)"

fun drop_underscores :: "char \<Rightarrow> string \<Rightarrow> string option" where
  "drop_underscores prev [] = (if prev = CHR ''_'' then None else Some [])"
| "drop_underscores prev (c # cs) =
     (if c = CHR ''_'' then (if is_digit prev then drop_underscores c cs else None)
      else if prev = CHR ''_'' \<and> \<not> is_digit c then None
      else map_option ((#) c) (drop_underscores c cs))"

definition lower :: "char \<Rightarrow> char" where
  "lower c =
     (let n = (of_char c :: nat) in if 65 \<le> n \<and> n \<le> 90 then char_of (n + 32) else c)"

definition float_from_string_inner :: "string \<Rightarrow> pyfloat option" where
  "float_from_string_inner s =
     (let (neg, r0) = scan_sign s; word = map lower r0 in
      if word = ''inf'' \<or> word = ''infinity'' then Some (if neg then NegInf else PosInf)
      else if word = ''nan'' then Some NaN
      else
        (let ip = takeWhile is_digit r0;
             r1 = dropWhile is_digit r0;
             (fp, r2) = (case r1 of
                           [] \<Rightarrow> ([], [])
                         | c # t \<Rightarrow> if c = CHR ''.''
                                    then (takeWhile is_digit t, dropWhile is_digit t)
                                    else ([], r1))
         in if ip = [] \<and> fp = [] then None
            else
              (case r2 of
                 [] \<Rightarrow> Some (decimal neg ip fp 0)
               | e # t \<Rightarrow>
                   if e = CHR ''e'' \<or> e = CHR ''E'' then
                     (let (eneg, t1) = scan_sign t in
                      if t1 \<noteq> [] \<and> list_all is_digit t1
                      then Some (decimal neg ip fp
                                   ((if eneg then - 1 else 1) * int (nat_of_digits t1)))
                      else None)
                   else None)))"

definition float_of_str :: "string \<Rightarrow> exn + pyfloat" where
  "float_of_str s =
     (let t = rev (dropWhile float_space (rev (dropWhile float_space s))) in
      if t = [] then Inl ValueError
      else
        (case drop_underscores (CHR 0x00) t of
           None \<Rightarrow> Inl ValueError
         | Some u \<Rightarrow>
             (case float_from_string_inner u of
                None \<Rightarrow> Inl ValueError
              | Some f \<Rightarrow> Inr f)))"

text \<open>
  \<open>float(v)\<close> for a decoded value. An \<open>int\<close> that rounds beyond the largest finite
  binary64 value raises \<open>OverflowError\<close>; \<open>True\<close> and \<open>False\<close> are the numbers 1 and 0.
\<close>

fun py_float :: "json \<Rightarrow> exn + pyfloat" where
  "py_float (JString s) = float_of_str s"
| "py_float (JInt n) =
     (if 2 ^ 1024 - 2 ^ 970 \<le> \<bar>n\<bar> then Inl OverflowError else Inr (Fin (of_int n)))"
| "py_float (JFloat f) = Inr f"
| "py_float (JBool b) = Inr (Fin (if b then 1 else 0))"
| "py_float JNull = Inl TypeError"
| "py_float (JArray xs) = Inl TypeError"
| "py_float (JObject d) = Inl TypeError"

section \<open>The page\<close>

text \<open>
  The tree that \<open>BeautifulSoup(html, 'html.parser')\<close> builds. A tag has its name, the
  tokens of its \<open>class\<close> attribute, its other attributes and its contents. The parser
  itself is a parameter of \<open>parse_listings\<close> below, taken to build a tree for every
  text.
\<close>

datatype node =
    Tag (tag_name: string) (tag_classes: "string list")
        (tag_attrs: "(string \<times> string) list") (tag_contents: "node list")
  | NavigableString string

text \<open>The descendants of a tag in document order.\<close>

fun descendants :: "node \<Rightarrow> node list" where
  "descendants (Tag n cl a kids) = concat (map (\<lambda>k. k # descendants k) kids)"
| "descendants (NavigableString s) = []"

text \<open>A tag of the given name with the given class among the tokens of its \<open>class\<close>.\<close>

fun matches :: "string \<Rightarrow> string \<Rightarrow> node \<Rightarrow> bool" where
  "matches name cl (Tag n cls a kids) = (n = name \<and> cl \<in> set cls)"
| "matches name cl (NavigableString s) = False"

text \<open>\<open>tag.find_all(name, class_=cl)\<close>, \<open>tag.find(name, class_=cl)\<close> and \<open>tag.get(key)\<close>.\<close>

definition find_all :: "string \<Rightarrow> string \<Rightarrow> node \<Rightarrow> node list" where
  "find_all name cl t = filter (matches name cl) (descendants t)"

definition find_tag :: "string \<Rightarrow> string \<Rightarrow> node \<Rightarrow> node option" where
  "find_tag name cl t = (case find_all name cl t of [] \<Rightarrow> None | x # xs \<Rightarrow> Some x)"

fun attr_get :: "node \<Rightarrow> string \<Rightarrow> string option" where
  "attr_get (Tag n cls a kids) key = map_of a key"
| "attr_get (NavigableString s) key = None"

section \<open>parse\_listings\<close>

text \<open>\<open>key in obj\<close> and \<open>obj[key]\<close> for a string key and a decoded value.\<close>

fun py_in :: "string \<Rightarrow> json \<Rightarrow> exn + bool" where
  "py_in key (JObject d) = Inr (key \<in> fst ` set d)"
| "py_in key (JArray xs) = Inr (JString key \<in> set xs)"
| "py_in key (JString s) = Inr (is_substring key s)"
| "py_in key v = Inl TypeError"

fun subscript :: "json \<Rightarrow> string \<Rightarrow> exn + json" where
  "subscript (JObject d) key = (case map_of d key of None \<Rightarrow> Inl KeyError | Some v \<Rightarrow> Inr v)"
| "subscript v key = Inl TypeError"

text \<open>
  The body of the \<open>try\<close> for one row with a non-empty \<open>data-goods-info\<close>: the price
  to append, \<open>None\<close> when the key is not there, or the exception raised.
\<close>

definition cleaned_str :: "string \<Rightarrow> string" where
  "cleaned_str goods_info_str =
     replace '';'' [] (replace ''&quot;'' [CHR 0x22] goods_info_str)"

definition row_price :: "string \<Rightarrow> exn + pyfloat option" where
  "row_price goods_info_str =
     (case json_loads (cleaned_str goods_info_str) of
        Inl e \<Rightarrow> Inl e
      | Inr data \<Rightarrow>
          (let stripped_data = strip_recursive data in
           case py_in ''sell_min_price'' stripped_data of
             Inl e \<Rightarrow> Inl e
           | Inr False \<Rightarrow> Inr None
           | Inr True \<Rightarrow>
               (case subscript stripped_data ''sell_min_price'' of
                  Inl e \<Rightarrow> Inl e
                | Inr v \<Rightarrow>
                    (case py_float v of
                       Inl e \<Rightarrow> Inl e
                     | Inr p \<Rightarrow> Inr (Some p)))))"

text \<open>\<open>except (json.JSONDecodeError, ValueError, TypeError)\<close>.\<close>

definition caught :: "exn \<Rightarrow> bool" where
  "caught e = (e = JSONDecodeError \<or> e = ValueError \<or> e = TypeError)"

text \<open>
  The \<open>for\<close> loop over the rows, each given by its \<open>data-goods-info\<close> attribute, with
  the list \<open>prices\<close> built so far. An exception the handler does not name leaves the
  function.
\<close>

fun selling_rows_loop :: "string option list \<Rightarrow> pyfloat list \<Rightarrow> exn + pyfloat list" where
  "selling_rows_loop [] prices = Inr prices"
| "selling_rows_loop (g # rows) prices =
     (case g of
        None \<Rightarrow> selling_rows_loop rows prices
      | Some goods_info_str \<Rightarrow>
          if goods_info_str = [] then selling_rows_loop rows prices
          else
            (case row_price goods_info_str of
               Inl e \<Rightarrow> if caught e then selling_rows_loop rows prices else Inl e
             | Inr None \<Rightarrow> selling_rows_loop rows prices
             | Inr (Some p) \<Rightarrow> selling_rows_loop rows (prices @ [p])))"

text \<open>
  \<open>parse_listings\<close>, for the result of \<open>fetch_html\<close> (\<open>None\<close> after a failed fetch).
\<close>

definition parse_listings :: "(string \<Rightarrow> node) \<Rightarrow> string option \<Rightarrow> exn + pyfloat list" where
  "parse_listings BeautifulSoup html =
     (case html of
        None \<Rightarrow> Inr []
      | Some h \<Rightarrow>
          if h = [] then Inr []
          else
            (case find_tag ''table'' ''list_tb'' (BeautifulSoup h) of
               None \<Rightarrow> Inr []
             | Some listings_table \<Rightarrow>
                 selling_rows_loop
                   (map (\<lambda>row. attr_get row ''data-goods-info'')
                      (find_all ''tr'' ''selling'' listings_table)) []))"

section \<open>The monitor's state\<close>

text \<open>
  One dictionary of \<open>items_data\<close>. The configuration is taken to supply a string for
  \<open>display_name\<close> and \<open>url\<close> and a number for \<open>alarm_price\<close>; \<open>last_updated\<close> is the
  clock reading of \<open>datetime.now()\<close>, an input of every step.
\<close>

record item =
  display_name :: string
  url :: string
  alarm_price :: pyfloat
  lowest_price :: "pyfloat option"
  last_updated :: "nat option"

text \<open>
  What \<open>generate_layout\<close> hands to the console. The table has one row per item; a cell
  holding \<open>None\<close> is printed as \<open>N/A\<close>, a price with two decimals, a time as
  \<open>%H:%M:%S\<close>. The footer has one line per entry of \<open>alarm_lines\<close>, the name and the
  price of the line \<open>[bold red] - name: price\<close>.
\<close>

record layout =
  footer_size :: nat
  table_rows :: "(string \<times> pyfloat option \<times> nat option) list"
  alarm_lines :: "(string \<times> pyfloat) list"

text \<open>
  The state of \<open>main\<close>: the two variables of the source, the number of calls of
  \<open>play_alarm_sound\<close> so far, the index of the item the \<open>for\<close> loop handles next and
  the layout last given to \<open>live.update\<close>.
\<close>

record monitor =
  items_data :: "item list"
  active_alarms :: "string set"
  sounds :: nat
  cursor :: nat
  display :: layout

section \<open>generate\_layout\<close>

text \<open>
  \<open>next((item for item in items_data if item["display_name"] == name), None)\<close>: the
  first item of that name.
\<close>

definition item_named :: "item list \<Rightarrow> string \<Rightarrow> item option" where
  "item_named items name = find (\<lambda>it. display_name it = name) items"

text \<open>
  One pass of the footer loop: a line is added only when the item is found and its
  price is truthy.
\<close>

definition alarm_line :: "item list \<Rightarrow> string \<Rightarrow> (string \<times> pyfloat) list" where
  "alarm_line items name =
     (case item_named items name of
        None \<Rightarrow> []
      | Some item_data \<Rightarrow>
          (case lowest_price item_data of
             None \<Rightarrow> []
           | Some p \<Rightarrow> if truthy (Some p) then [(name, p)] else []))"

definition generate_layout :: "item list \<Rightarrow> string set \<Rightarrow> layout" where
  "generate_layout items alarms =
     \<lparr>footer_size = card alarms + 4,
      table_rows = map (\<lambda>it. (display_name it, lowest_price it, last_updated it)) items,
      alarm_lines =
        (if alarms = {} then []
         else concat (map (alarm_line items) (sorted_list_of_set alarms)))\<rparr>"

section \<open>The monitor loop\<close>

text \<open>
  The body of the \<open>for\<close> loop for the item at index \<open>i\<close>, given the list that
  \<open>parse_listings\<close> returned and the clock, up to the refresh of the display.
\<close>

definition process_item :: "nat \<Rightarrow> pyfloat list \<Rightarrow> nat \<Rightarrow> monitor \<Rightarrow> monitor" where
  "process_item i prices now s =
     (case prices of
        [] \<Rightarrow> s
      | p # ps \<Rightarrow>
          (let it = items_data s ! i;
               lowest = min_from p ps;
               s1 = s\<lparr>items_data := (items_data s)
                      [i := it\<lparr>lowest_price := Some lowest, last_updated := Some now\<rparr>]\<rparr>;
               is_in_alarm = (display_name it \<in> active_alarms s)
           in if float_le lowest (alarm_price it) then
                (if \<not> is_in_alarm
                 then s1\<lparr>sounds := Suc (sounds s),
                         active_alarms := insert (display_name it) (active_alarms s)\<rparr>
                 else s1)
              else
                (if is_in_alarm
                 then s1\<lparr>active_alarms := active_alarms s - {display_name it}\<rparr>
                 else s1)))"

text \<open>\<open>live.update(generate_layout(items_data, active_alarms), refresh=True)\<close>.\<close>

definition refresh :: "monitor \<Rightarrow> monitor" where
  "refresh s = s\<lparr>display := generate_layout (items_data s) (active_alarms s)\<rparr>"

text \<open>
  One iteration of the \<open>for\<close> loop with the prices of the sample: the item under the
  cursor is processed, the display refreshed, and the cursor moves on; after the last
  item the loop sleeps and starts again at the first.
\<close>

definition monitor_step :: "pyfloat list \<Rightarrow> nat \<Rightarrow> monitor \<Rightarrow> monitor" where
  "monitor_step prices now s =
     (refresh (process_item (cursor s) prices now s))
       \<lparr>cursor := (if Suc (cursor s) < length (items_data s) then Suc (cursor s) else 0)\<rparr>"

text \<open>
  The iteration from the result of \<open>fetch_html\<close> on: an exception that leaves
  \<open>parse_listings\<close> leaves the loop as well.
\<close>

definition poll :: "(string \<Rightarrow> node) \<Rightarrow> string option \<Rightarrow> nat \<Rightarrow> monitor \<Rightarrow> exn + monitor" where
  "poll BeautifulSoup html now s =
     (case parse_listings BeautifulSoup html of
        Inl e \<Rightarrow> Inl e
      | Inr prices \<Rightarrow> Inr (monitor_step prices now s))"

text \<open>
  The state before the first iteration, for a configuration given as the list of
  \<open>(display_name, url, alarm_price)\<close>.
\<close>

definition new_item :: "string \<times> string \<times> pyfloat \<Rightarrow> item" where
  "new_item c = \<lparr>display_name = fst c, url = fst (snd c), alarm_price = snd (snd c),
                 lowest_price = None, last_updated = None\<rparr>"

definition initial :: "(string \<times> string \<times> pyfloat) list \<Rightarrow> monitor" where
  "initial cfg =
     \<lparr>items_data = map new_item cfg, active_alarms = {}, sounds = 0, cursor = 0,
      display = generate_layout (map new_item cfg) {}\<rparr>"

text \<open>
  The states the loop can be in after any number of iterations, whatever the pages
  fetched and the clock were. With no items the loop body never runs.
\<close>

inductive reachable ::
  "(string \<Rightarrow> node) \<Rightarrow> (string \<times> string \<times> pyfloat) list \<Rightarrow> monitor \<Rightarrow> bool"
  for BeautifulSoup :: "string \<Rightarrow> node" and cfg :: "(string \<times> string \<times> pyfloat) list" where
  start: "reachable BeautifulSoup cfg (initial cfg)"
| step: "reachable BeautifulSoup cfg s \<Longrightarrow> cursor s < length (items_data s) \<Longrightarrow>
         poll BeautifulSoup html now s = Inr s' \<Longrightarrow> reachable BeautifulSoup cfg s'"

section \<open>Startup\<close>

text \<open>
  A decoded TOML value, and what reading the configuration file gave: no such file,
  another failure of \<open>open\<close>, a failure of \<open>toml.load\<close>, or the decoded table.
\<close>

datatype tval =
    TString string | TInt int | TFloat pyfloat | TBool bool | TDatetime nat
  | TArray "tval list" | TTable "(string \<times> tval) list"

datatype config_read =
    Missing | Unreadable | Undecodable | Loaded "(string \<times> tval) list"

text \<open>
  \<open>load_config\<close>: what it prints, and the table it returns or the exception that leaves
  it. Only \<open>FileNotFoundError\<close> is handled, by a message and \<open>exit(1)\<close>.
\<close>

definition load_config :: "string \<Rightarrow> config_read \<Rightarrow> string list \<times> (exn + (string \<times> tval) list)" where
  "load_config filename r =
     (case r of
        Missing \<Rightarrow>
          ([''Error: Configuration file '' @ [CHR 0x27] @ filename @ [CHR 0x27] @ '' not found.''],
           Inl (SystemExit 1))
      | Unreadable \<Rightarrow> ([], Inl OSError)
      | Undecodable \<Rightarrow> ([], Inl TomlDecodeError)
      | Loaded config \<Rightarrow> ([], Inr config))"

text \<open>Iterating over a TOML value, and \<open>item[key]\<close>.\<close>

fun iterate :: "tval \<Rightarrow> exn + tval list" where
  "iterate (TArray xs) = Inr xs"
| "iterate (TString s) = Inr (map (\<lambda>c. TString [c]) s)"
| "iterate (TTable kvs) = Inr (map (\<lambda>kv. TString (fst kv)) kvs)"
| "iterate v = Inl TypeError"

fun item_get :: "tval \<Rightarrow> string \<Rightarrow> exn + tval" where
  "item_get (TTable kvs) key = (case map_of kvs key of None \<Rightarrow> Inl KeyError | Some v \<Rightarrow> Inr v)"
| "item_get v key = Inl TypeError"

text \<open>
  The list comprehension of \<open>main\<close>: the three configured fields of every item
  (\<open>lowest_price\<close> and \<open>last_updated\<close> start as \<open>None\<close>).
\<close>

fun build_items :: "tval list \<Rightarrow> exn + (tval \<times> tval \<times> tval) list" where
  "build_items [] = Inr []"
| "build_items (item # rest) =
     (case item_get item ''display_name'' of
        Inl e \<Rightarrow> Inl e
      | Inr n \<Rightarrow>
          (case item_get item ''url'' of
             Inl e \<Rightarrow> Inl e
           | Inr u \<Rightarrow>
               (case item_get item ''alarm_price'' of
                  Inl e \<Rightarrow> Inl e
                | Inr a \<Rightarrow>
                    (case build_items rest of
                       Inl e \<Rightarrow> Inl e
                     | Inr items \<Rightarrow> Inr ((n, u, a) # items)))))"

text \<open>
  \<open>main\<close> up to the point where the watcher announces itself and goes on to open the
  browser and poll: the lines printed, and \<open>items_data\<close> or the exception that ends the
  process. \<open>config.get("items", [])\<close> takes the empty list when the key is not there.
\<close>

definition startup :: "config_read \<Rightarrow> string list \<times> (exn + (tval \<times> tval \<times> tval) list)" where
  "startup r =
     (case load_config ''config.toml'' r of
        (out, Inl e) \<Rightarrow> (out, Inl e)
      | (out, Inr config) \<Rightarrow>
          (case iterate (case map_of config ''items'' of None \<Rightarrow> TArray [] | Some v \<Rightarrow> v) of
             Inl e \<Rightarrow> (out, Inl e)
           | Inr items \<Rightarrow>
               (case build_items items of
                  Inl e \<Rightarrow> (out, Inl e)
                | Inr built \<Rightarrow>
                    (out @ [''Starting Buff Market watcher...''], Inr built))))"

text \<open>
  The status of the process when an exception ends it: that of \<open>SystemExit\<close>, and 1
  (after a traceback) for any other.
\<close>

fun exit_status :: "exn \<Rightarrow> nat" where
  "exit_status (SystemExit n) = n"
| "exit_status e = 1"

section \<open>Predicates and pages of the statements\<close>

text \<open>
  The invariant of the monitor loop for a configuration: the items are the configured
  ones, and a name is in \<open>active_alarms\<close> exactly when the recorded price of its item is
  at or below the threshold.
\<close>

definition alarm_inv :: "(string \<times> string \<times> pyfloat) list \<Rightarrow> monitor \<Rightarrow> bool" where
  "alarm_inv cfg s =
     (length (items_data s) = length cfg \<and>
      (\<forall>j < length cfg. display_name (items_data s ! j) = fst (cfg ! j) \<and>
         alarm_price (items_data s ! j) = snd (snd (cfg ! j)) \<and>
         (display_name (items_data s ! j) \<in> active_alarms s) =
           (case lowest_price (items_data s ! j) of
              None \<Rightarrow> False
            | Some p \<Rightarrow> float_le p (alarm_price (items_data s ! j)))))"

text \<open>
  A run of the loop over the samples of successive iterations, each with its prices and
  its clock reading, and the number of iterations of the run in which the name of the
  item under the cursor enters \<open>active_alarms\<close>.
\<close>

fun run :: "(pyfloat list \<times> nat) list \<Rightarrow> monitor \<Rightarrow> monitor" where
  "run [] s = s"
| "run (sample # samples) s = run samples (monitor_step (fst sample) (snd sample) s)"

fun activations :: "(pyfloat list \<times> nat) list \<Rightarrow> monitor \<Rightarrow> nat" where
  "activations [] s = 0"
| "activations (sample # samples) s =
     (if display_name (items_data s ! cursor s) \<notin> active_alarms s \<and>
         display_name (items_data s ! cursor s)
           \<in> active_alarms (monitor_step (fst sample) (snd sample) s)
      then 1 else 0)
     + activations samples (monitor_step (fst sample) (snd sample) s)"

text \<open>
  What \<open>_strip_recursive\<close> achieves: in every dictionary, at any depth, the keys are
  stripped and so are the values that are strings.
\<close>

fun trimmed :: "json \<Rightarrow> bool" where
  "trimmed (JObject kvs) =
     (\<forall>kv \<in> set kvs. strip (fst kv) = fst kv \<and> strip_value (snd kv) = snd kv \<and> trimmed (snd kv))"
| "trimmed (JArray xs) = (\<forall>x \<in> set xs. trimmed x)"
| "trimmed v = True"

text \<open>
  The property as the specification states it: every key and every string is stripped,
  strings inside arrays included.
\<close>

fun trimmed_everywhere :: "json \<Rightarrow> bool" where
  "trimmed_everywhere (JString s) = (strip s = s)"
| "trimmed_everywhere (JArray xs) = (\<forall>x \<in> set xs. trimmed_everywhere x)"
| "trimmed_everywhere (JObject kvs) =
     (\<forall>kv \<in> set kvs. strip (fst kv) = fst kv \<and> trimmed_everywhere (snd kv))"
| "trimmed_everywhere v = True"

text \<open>The encoding that \<open>cleaned_str\<close> undoes: every quote written as its entity.\<close>

definition escape_quotes :: "string \<Rightarrow> string" where
  "escape_quotes s = concat (map (\<lambda>c. if c = CHR 0x22 then ''&quot;'' else [c]) s)"

text \<open>
  A listing page: the table \<open>list_tb\<close> with a header row and one \<open>selling\<close> row for each
  payload, given as its \<open>data-goods-info\<close> attribute.
\<close>

definition listing_page :: "string list \<Rightarrow> node" where
  "listing_page payloads =
     Tag ''[document]'' [] []
       [Tag ''html'' [] []
          [Tag ''body'' [] []
             [Tag ''table'' [''list_tb''] []
                (Tag ''tr'' [] [] [Tag ''th'' [] [] [NavigableString ''Price'']] #
                 map (\<lambda>p. Tag ''tr'' [''selling''] [(''id'', ''sell_order''), (''data-goods-info'', p)] [])
                   payloads)]]]"

section \<open>The alarm\<close>

lemma monitor_step_fields:
  "sounds (monitor_step prices now s) = sounds (process_item (cursor s) prices now s)"
  "active_alarms (monitor_step prices now s) = active_alarms (process_item (cursor s) prices now s)"
  "items_data (monitor_step prices now s) = items_data (process_item (cursor s) prices now s)"
  by (simp_all add: monitor_step_def refresh_def)

lemma process_item_Nil: "process_item i [] now s = s"
  by (simp add: process_item_def)

lemma monitor_step_sounds:
  "sounds (monitor_step prices now s) =
     (if display_name (items_data s ! cursor s) \<notin> active_alarms s \<and>
         display_name (items_data s ! cursor s) \<in> active_alarms (monitor_step prices now s)
      then Suc (sounds s) else sounds s)"
  unfolding monitor_step_fields
  by (auto simp: process_item_def Let_def split: list.splits)

lemma run_sounds: "sounds (run samples s) = sounds s + activations samples s"
proof (induction samples arbitrary: s)
  case Nil
  show ?case by simp
next
  case (Cons sample samples)
  have "sounds (run (sample # samples) s) =
        sounds (monitor_step (fst sample) (snd sample) s)
          + activations samples (monitor_step (fst sample) (snd sample) s)"
    by (simp add: Cons.IH)
  also have "\<dots> = sounds s + activations (sample # samples) s"
    by (subst monitor_step_sounds) simp
  finally show ?case .
qed

text \<open>
  C1. In one iteration the sound plays exactly when the name of the item under the cursor
  enters \<open>active_alarms\<close>. With a lowest price at or below the threshold the name is
  in the set afterwards and the sound plays if and only if it was not in the set before;
  with a lowest price above the threshold the name is not in the set afterwards and no
  sound plays; with no prices no sound plays. Over a run the sound has played as often
  as a name has entered the set.
\<close>

theorem alarm_fires_once_per_activation:
  "sounds (monitor_step prices now s) =
     (if display_name (items_data s ! cursor s) \<notin> active_alarms s \<and>
         display_name (items_data s ! cursor s) \<in> active_alarms (monitor_step prices now s)
      then Suc (sounds s) else sounds s)
   \<and> (case prices of
        [] \<Rightarrow> sounds (monitor_step prices now s) = sounds s
      | p # ps \<Rightarrow>
          if float_le (min_from p ps) (alarm_price (items_data s ! cursor s))
          then display_name (items_data s ! cursor s) \<in> active_alarms (monitor_step prices now s)
             \<and> ((sounds (monitor_step prices now s) = Suc (sounds s)) =
                (display_name (items_data s ! cursor s) \<notin> active_alarms s))
          else display_name (items_data s ! cursor s) \<notin> active_alarms (monitor_step prices now s)
             \<and> sounds (monitor_step prices now s) = sounds s)
   \<and> sounds (run samples s) = sounds s + activations samples s"
proof (intro conjI)
  show "sounds (monitor_step prices now s) =
     (if display_name (items_data s ! cursor s) \<notin> active_alarms s \<and>
         display_name (items_data s ! cursor s) \<in> active_alarms (monitor_step prices now s)
      then Suc (sounds s) else sounds s)"
    by (rule monitor_step_sounds)
  show "case prices of
        [] \<Rightarrow> sounds (monitor_step prices now s) = sounds s
      | p # ps \<Rightarrow>
          if float_le (min_from p ps) (alarm_price (items_data s ! cursor s))
          then display_name (items_data s ! cursor s) \<in> active_alarms (monitor_step prices now s)
             \<and> ((sounds (monitor_step prices now s) = Suc (sounds s)) =
                (display_name (items_data s ! cursor s) \<notin> active_alarms s))
          else display_name (items_data s ! cursor s) \<notin> active_alarms (monitor_step prices now s)
             \<and> sounds (monitor_step prices now s) = sounds s"
    unfolding monitor_step_fields
    by (auto simp: process_item_def Let_def split: list.splits)
  show "sounds (run samples s) = sounds s + activations samples s"
    by (rule run_sounds)
qed

lemma process_item_other:
  "j \<noteq> i \<Longrightarrow> items_data (process_item i prices now s) ! j = items_data s ! j"
  by (auto simp: process_item_def Let_def split: list.splits)

lemma process_item_other_alarm:
  "m \<noteq> display_name (items_data s ! i) \<Longrightarrow>
   (m \<in> active_alarms (process_item i prices now s)) = (m \<in> active_alarms s)"
  by (auto simp: process_item_def Let_def split: list.splits)

lemma process_item_length:
  "length (items_data (process_item i prices now s)) = length (items_data s)"
  by (auto simp: process_item_def Let_def split: list.splits)

lemma nth_update_field:
  "f x = f (xs ! i) \<Longrightarrow> f (xs[i := x] ! j) = f (xs ! j)"
  by (cases "i < length xs") (auto simp: nth_list_update list_update_beyond not_less)

lemma process_item_names:
  "display_name (items_data (process_item i prices now s) ! j) = display_name (items_data s ! j)"
  "alarm_price (items_data (process_item i prices now s) ! j) = alarm_price (items_data s ! j)"
  by (auto simp: process_item_def Let_def nth_update_field split: list.splits)

lemma process_item_self:
  "i < length (items_data s) \<Longrightarrow>
   (display_name (items_data s ! i) \<in> active_alarms (process_item i (p # ps) now s)) =
     float_le (min_from p ps) (alarm_price (items_data s ! i)) \<and>
   lowest_price (items_data (process_item i (p # ps) now s) ! i) = Some (min_from p ps)"
  by (auto simp: process_item_def Let_def)

lemma alarm_invD:
  assumes "alarm_inv cfg s" and "j < length cfg"
  shows "display_name (items_data s ! j) = fst (cfg ! j)"
    and "alarm_price (items_data s ! j) = snd (snd (cfg ! j))"
    and "(display_name (items_data s ! j) \<in> active_alarms s) =
           (case lowest_price (items_data s ! j) of
              None \<Rightarrow> False
            | Some p \<Rightarrow> float_le p (alarm_price (items_data s ! j)))"
  using assms unfolding alarm_inv_def by blast+

lemma alarm_inv_initial: "alarm_inv cfg (initial cfg)"
  by (simp add: alarm_inv_def initial_def new_item_def)

lemma alarm_inv_process:
  assumes inv: "alarm_inv cfg s" and d: "distinct (map fst cfg)" and i: "i < length (items_data s)"
  shows "alarm_inv cfg (process_item i prices now s)"
proof (cases prices)
  case Nil
  with inv show ?thesis by (simp add: process_item_Nil)
next
  case (Cons p ps)
  have len: "length (items_data s) = length cfg"
    using inv by (simp add: alarm_inv_def)
  show ?thesis
    unfolding alarm_inv_def process_item_length process_item_names
  proof (intro conjI allI impI)
    show "length (items_data s) = length cfg" by (rule len)
  next
    fix j assume j: "j < length cfg"
    show "display_name (items_data s ! j) = fst (cfg ! j)"
      using inv j by (rule alarm_invD)
    show "alarm_price (items_data s ! j) = snd (snd (cfg ! j))"
      using inv j by (rule alarm_invD)
    show "(display_name (items_data s ! j) \<in> active_alarms (process_item i prices now s)) =
          (case lowest_price (items_data (process_item i prices now s) ! j) of
             None \<Rightarrow> False
           | Some p \<Rightarrow> float_le p (alarm_price (items_data s ! j)))"
    proof (cases "j = i")
      case True
      then show ?thesis
        using process_item_self [OF i, of p ps now] Cons by simp
    next
      case False
      have "fst (cfg ! j) \<noteq> fst (cfg ! i)"
        using d j i len False by (simp add: distinct_conv_nth)
      then have "display_name (items_data s ! j) \<noteq> display_name (items_data s ! i)"
        using alarm_invD(1) [OF inv] j i len by simp
      then show ?thesis
        using alarm_invD(3) [OF inv j] False
        by (simp add: process_item_other_alarm process_item_other)
    qed
  qed
qed

lemma alarm_inv_step:
  assumes "alarm_inv cfg s" and "distinct (map fst cfg)" and "cursor s < length (items_data s)"
  shows "alarm_inv cfg (monitor_step prices now s)"
proof -
  have "alarm_inv cfg (monitor_step prices now s) =
        alarm_inv cfg (process_item (cursor s) prices now s)"
    unfolding alarm_inv_def monitor_step_fields ..
  then show ?thesis
    using alarm_inv_process [OF assms, of prices now] by simp
qed

lemma poll_cases:
  "poll bs html now s = Inr s' \<Longrightarrow> \<exists>prices. s' = monitor_step prices now s"
  by (auto simp: poll_def split: sum.splits)

lemma reachable_alarm_inv:
  "reachable bs cfg s \<Longrightarrow> distinct (map fst cfg) \<Longrightarrow> alarm_inv cfg s"
proof (induction rule: reachable.induct)
  case start
  show ?case by (rule alarm_inv_initial)
next
  case (step s html now s')
  from step.hyps(3) obtain prices where "s' = monitor_step prices now s"
    by (auto dest: poll_cases)
  with step show ?case by (simp add: alarm_inv_step)
qed

text \<open>
  C4, amended. In every reachable state of a configuration whose display names are
  distinct, the items have the configured names and thresholds, and the name of an item
  is in \<open>active_alarms\<close> if and only if its recorded \<open>lowest_price\<close> is not \<open>None\<close>
  and at or below its \<open>alarm_price\<close>.
\<close>

theorem alarm_set_matches_recorded_price:
  assumes "reachable BeautifulSoup cfg s" and "distinct (map fst cfg)"
  shows "map display_name (items_data s) = map fst cfg
       \<and> map alarm_price (items_data s) = map (\<lambda>c. snd (snd c)) cfg
       \<and> (\<forall>it \<in> set (items_data s).
            (display_name it \<in> active_alarms s) =
              (case lowest_price it of
                 None \<Rightarrow> False
               | Some p \<Rightarrow> float_le p (alarm_price it)))"
proof -
  have inv: "alarm_inv cfg s"
    using assms by (rule reachable_alarm_inv)
  have len: "length (items_data s) = length cfg"
    using inv by (simp add: alarm_inv_def)
  have "map display_name (items_data s) = map fst cfg"
    using alarm_invD(1) [OF inv] len by (intro nth_equalityI) simp_all
  moreover have "map alarm_price (items_data s) = map (\<lambda>c. snd (snd c)) cfg"
    using alarm_invD(2) [OF inv] len by (intro nth_equalityI) simp_all
  moreover have "\<forall>it \<in> set (items_data s).
            (display_name it \<in> active_alarms s) =
              (case lowest_price it of
                 None \<Rightarrow> False
               | Some p \<Rightarrow> float_le p (alarm_price it))"
  proof
    fix it assume "it \<in> set (items_data s)"
    then obtain j where j: "j < length cfg" and it: "it = items_data s ! j"
      using len by (metis in_set_conv_nth)
    show "(display_name it \<in> active_alarms s) =
              (case lowest_price it of
                 None \<Rightarrow> False
               | Some p \<Rightarrow> float_le p (alarm_price it))"
      unfolding it using inv j by (rule alarm_invD(3))
  qed
  ultimately show ?thesis by simp
qed


theorem alarm_fires_once_per_activation_witness:
  "sounds (monitor_step [Fin 95, Fin 97] 2
             (monitor_step [Fin 150] 1 (initial [(''AK'', ''u'', Fin 100)]))) = Suc 0
   \<and> ''AK'' \<in> active_alarms (monitor_step [Fin 95, Fin 97] 2
             (monitor_step [Fin 150] 1 (initial [(''AK'', ''u'', Fin 100)])))
   \<and> sounds (monitor_step [Fin 150] 1 (initial [(''AK'', ''u'', Fin 100)])) = 0
   \<and> sounds (run [([Fin 150], 1), ([Fin 95], 2), ([Fin 90], 3), ([Fin 120], 4)]
               (initial [(''AK'', ''u'', Fin 100)])) = 1
   \<and> activations [([Fin 150], 1), ([Fin 95], 2), ([Fin 90], 3), ([Fin 120], 4)]
               (initial [(''AK'', ''u'', Fin 100)]) = 1"
  using alarm_fires_once_per_activation
    [of "[Fin 95, Fin 97]" 2 "monitor_step [Fin 150] 1 (initial [(''AK'', ''u'', Fin 100)])"
        "[]"]
    alarm_fires_once_per_activation
    [of "[]" 0 "initial [(''AK'', ''u'', Fin 100)]"
        "[([Fin 150], 1), ([Fin 95], 2), ([Fin 90], 3), ([Fin 120], 4)]"]
  by (simp add: monitor_step_def refresh_def process_item_def initial_def new_item_def)

text \<open>
  The first scenario of the specification: threshold 100, lowest prices 150, 95, 90 and
  120 in four cycles. The sound plays once, in the second cycle.
\<close>

lemma scenario_A:
  "sounds (monitor_step [Fin 150] 1 (initial [(''AK'', ''u'', Fin 100)])) = 0"
  "active_alarms (monitor_step [Fin 150] 1 (initial [(''AK'', ''u'', Fin 100)])) = {}"
  "sounds (monitor_step [Fin 95] 2 (monitor_step [Fin 150] 1 (initial [(''AK'', ''u'', Fin 100)]))) = 1"
  "active_alarms (monitor_step [Fin 95] 2 (monitor_step [Fin 150] 1 (initial [(''AK'', ''u'', Fin 100)]))) = {''AK''}"
  "sounds (monitor_step [Fin 90] 3 (monitor_step [Fin 95] 2 (monitor_step [Fin 150] 1 (initial [(''AK'', ''u'', Fin 100)])))) = 1"
  "active_alarms (monitor_step [Fin 90] 3 (monitor_step [Fin 95] 2 (monitor_step [Fin 150] 1 (initial [(''AK'', ''u'', Fin 100)])))) = {''AK''}"
  "sounds (monitor_step [Fin 120] 4 (monitor_step [Fin 90] 3 (monitor_step [Fin 95] 2 (monitor_step [Fin 150] 1 (initial [(''AK'', ''u'', Fin 100)]))))) = 1"
  "active_alarms (monitor_step [Fin 120] 4 (monitor_step [Fin 90] 3 (monitor_step [Fin 95] 2 (monitor_step [Fin 150] 1 (initial [(''AK'', ''u'', Fin 100)]))))) = {}"
  by (simp_all add: monitor_step_def refresh_def process_item_def initial_def new_item_def)

lemma parse_listings_None: "parse_listings bs None = Inr []"
  by (simp add: parse_listings_def)

text \<open>
  C2. When the sample has no prices (\<open>parse_listings\<close> returns the empty list, as it
  does for the \<open>None\<close> of a failed fetch), the iteration completes, \<open>active_alarms\<close> is
  as before and no sound plays.
\<close>

theorem empty_sample_keeps_alarm_state:
  assumes "parse_listings BeautifulSoup html = Inr []"
  shows "\<exists>s'. poll BeautifulSoup html now s = Inr s'
            \<and> active_alarms s' = active_alarms s \<and> sounds s' = sounds s"
  using assms by (simp add: poll_def monitor_step_fields process_item_Nil)

theorem empty_sample_keeps_alarm_state_witness:
  "parse_listings (\<lambda>h. NavigableString h) None = Inr []
   \<and> (\<exists>s'. poll (\<lambda>h. NavigableString h) None 2
              (monitor_step [Fin 95] 1 (initial [(''AK'', ''u'', Fin 100)])) = Inr s'
          \<and> active_alarms s' =
              active_alarms (monitor_step [Fin 95] 1 (initial [(''AK'', ''u'', Fin 100)]))
          \<and> sounds s' = sounds (monitor_step [Fin 95] 1 (initial [(''AK'', ''u'', Fin 100)])))"
  using empty_sample_keeps_alarm_state
    [of "\<lambda>h. NavigableString h" None 2 "monitor_step [Fin 95] 1 (initial [(''AK'', ''u'', Fin 100)])"]
  by (simp add: parse_listings_def)

text \<open>
  C3. The iteration completes with the prices parsed. When there are none, \<open>items_data\<close>
  is as before, so \<open>lowest_price\<close> and \<open>last_updated\<close> of the item keep their values.
  Whatever the prices, every other entry of \<open>items_data\<close> is untouched, and so is the
  membership in \<open>active_alarms\<close> of every other name.
\<close>

theorem empty_sample_keeps_recorded_price:
  assumes "parse_listings BeautifulSoup html = Inr prices"
  shows "poll BeautifulSoup html now s = Inr (monitor_step prices now s)
       \<and> (prices = [] \<longrightarrow>
            items_data (monitor_step prices now s) = items_data s
          \<and> lowest_price (items_data (monitor_step prices now s) ! cursor s) =
              lowest_price (items_data s ! cursor s)
          \<and> last_updated (items_data (monitor_step prices now s) ! cursor s) =
              last_updated (items_data s ! cursor s))
       \<and> (\<forall>j. j \<noteq> cursor s \<longrightarrow>
            items_data (monitor_step prices now s) ! j = items_data s ! j)
       \<and> (\<forall>m. m \<noteq> display_name (items_data s ! cursor s) \<longrightarrow>
            (m \<in> active_alarms (monitor_step prices now s)) = (m \<in> active_alarms s))"
  using assms
  by (simp add: poll_def monitor_step_fields process_item_Nil process_item_other
        process_item_other_alarm)

theorem empty_sample_keeps_recorded_price_witness:
  "parse_listings (\<lambda>h. NavigableString h) None = Inr []
   \<and> poll (\<lambda>h. NavigableString h) None 2
        (monitor_step [Fin 95] 1 (initial [(''AK'', ''u'', Fin 100)])) =
      Inr (monitor_step [] 2 (monitor_step [Fin 95] 1 (initial [(''AK'', ''u'', Fin 100)])))
   \<and> lowest_price (items_data
        (monitor_step [] 2 (monitor_step [Fin 95] 1 (initial [(''AK'', ''u'', Fin 100)]))) ! 0)
      = Some (Fin 95)
   \<and> last_updated (items_data
        (monitor_step [] 2 (monitor_step [Fin 95] 1 (initial [(''AK'', ''u'', Fin 100)]))) ! 0)
      = Some 1"
  using empty_sample_keeps_recorded_price
    [of "\<lambda>h. NavigableString h" None "[]" 2
        "monitor_step [Fin 95] 1 (initial [(''AK'', ''u'', Fin 100)])"]
  by (simp add: parse_listings_def monitor_step_def refresh_def process_item_def
        initial_def new_item_def)

section \<open>The footer\<close>

text \<open>
  C10. A name in \<open>active_alarms\<close> whose item has the recorded price \<open>None\<close> or zero
  has no line in the footer, although the footer is sized for all active alarms.
\<close>

theorem falsy_price_hidden_in_footer:
  assumes "name \<in> alarms"
    and "item_named items name = Some it"
    and "lowest_price it = None \<or> lowest_price it = Some (Fin 0)"
  shows "name \<notin> fst ` set (alarm_lines (generate_layout items alarms))
       \<and> footer_size (generate_layout items alarms) = card alarms + 4"
  using assms
  by (auto simp: generate_layout_def alarm_line_def split: option.splits if_splits)

theorem falsy_price_hidden_in_footer_witness:
  "''AK'' \<in> active_alarms (monitor_step [Fin 0] 1 (initial [(''AK'', ''u'', Fin 100)]))
   \<and> item_named (items_data (monitor_step [Fin 0] 1 (initial [(''AK'', ''u'', Fin 100)]))) ''AK''
       = Some \<lparr>display_name = ''AK'', url = ''u'', alarm_price = Fin 100,
               lowest_price = Some (Fin 0), last_updated = Some 1\<rparr>
   \<and> ''AK'' \<notin> fst ` set (alarm_lines (display
         (monitor_step [Fin 0] 1 (initial [(''AK'', ''u'', Fin 100)]))))"
  using falsy_price_hidden_in_footer
    [of "''AK''" "active_alarms (monitor_step [Fin 0] 1 (initial [(''AK'', ''u'', Fin 100)]))"
        "items_data (monitor_step [Fin 0] 1 (initial [(''AK'', ''u'', Fin 100)]))"
        "\<lparr>display_name = ''AK'', url = ''u'', alarm_price = Fin 100,
               lowest_price = Some (Fin 0), last_updated = Some 1\<rparr>"]
  by (simp add: monitor_step_def refresh_def process_item_def initial_def new_item_def
        item_named_def)

section \<open>Parsing\<close>

text \<open>Evaluation of the decoder and of \<open>float()\<close> on given texts.\<close>

lemmas decoder_simps =
  json_loads_def skip_ws_def json_ws_def scan_number_def is_digit_def scan_frac_def
  scan_exp_def scan_sign_def nat_of_digits_def prepend_def decimal_def to_double_def

lemmas float_simps =
  float_of_str_def float_space_def float_from_string_inner_def lower_def scan_sign_def
  is_digit_def nat_of_digits_def decimal_def to_double_def

lemma find_all_listing_page:
  "find_tag ''table'' ''list_tb'' (listing_page ps) =
     Some (Tag ''table'' [''list_tb''] []
                (Tag ''tr'' [] [] [Tag ''th'' [] [] [NavigableString ''Price'']] #
                 map (\<lambda>p. Tag ''tr'' [''selling''] [(''id'', ''sell_order''), (''data-goods-info'', p)] [])
                   ps))"
  by (simp add: listing_page_def find_tag_def find_all_def)

lemma rows_listing_page:
  "map (\<lambda>row. attr_get row ''data-goods-info'')
     (find_all ''tr'' ''selling''
        (Tag ''table'' [''list_tb''] []
                (Tag ''tr'' [] [] [Tag ''th'' [] [] [NavigableString ''Price'']] #
                 map (\<lambda>p. Tag ''tr'' [''selling''] [(''id'', ''sell_order''), (''data-goods-info'', p)] [])
                   ps))) = map Some ps"
  by (induction ps) (simp_all add: find_all_def)

lemma parse_listing_page:
  "h \<noteq> [] \<Longrightarrow> bs h = listing_page ps \<Longrightarrow>
   parse_listings bs (Some h) = selling_rows_loop (map Some ps) []"
  by (simp add: parse_listings_def find_all_listing_page rows_listing_page)

lemma row_80: \<open>row_price ''{"sell_min_price": "80.00", "id": 7}'' = Inr (Some (Fin 80))\<close>
  by (simp add: row_price_def cleaned_str_def decoder_simps strip_def isspace_def strip_value_def float_simps)

lemma row_75: \<open>row_price ''{&quot;sell_min_price&quot;: &quot; 75.00 &quot;;}'' = Inr (Some (Fin 75))\<close>
  by (simp add: row_price_def cleaned_str_def decoder_simps strip_def isspace_def strip_value_def float_simps)

lemma row_bad: \<open>row_price ''{"sell_min_price": "80.00"'' = Inl JSONDecodeError\<close>
  by (simp add: row_price_def cleaned_str_def decoder_simps strip_def isspace_def strip_value_def float_simps)

lemma row_big: \<open>row_price ''{"sell_min_price": 1000000000000000000000000000000000000000000000000000000000000000000000000000000000000000000000000000000000000000000000000000000000000000000000000000000000000000000000000000000000000000000000000000000000000000000000000000000000000000000000000000000000000000000000000000000000000000000000000000000000000000000000}'' = Inl OverflowError\<close>
  by (simp add: row_price_def cleaned_str_def decoder_simps strip_def isspace_def strip_value_def float_simps)

lemma row_neg: \<open>row_price ''{"sell_min_price": "-5"}'' = Inr (Some (Fin (- 5)))\<close>
  by (simp add: row_price_def cleaned_str_def decoder_simps strip_def isspace_def strip_value_def float_simps)

lemma row_inf: \<open>row_price ''{"sell_min_price": "inf"}'' = Inr (Some PosInf)\<close>
  by (simp add: row_price_def cleaned_str_def decoder_simps strip_def isspace_def strip_value_def float_simps)

lemma row_nan: \<open>row_price ''{"sell_min_price": NaN}'' = Inr (Some NaN)\<close>
  by (simp add: row_price_def cleaned_str_def decoder_simps strip_def isspace_def strip_value_def float_simps)

lemma selling_rows_loop_skip:
  assumes "g = None \<or> g = Some [] \<or> (\<exists>s e. g = Some s \<and> row_price s = Inl e \<and> caught e)
           \<or> (\<exists>s. g = Some s \<and> row_price s = Inr None)"
  shows "selling_rows_loop (rs1 @ g # rs2) acc = selling_rows_loop (rs1 @ rs2) acc"
proof (induction rs1 arbitrary: acc)
  case Nil
  from assms show ?case by auto
next
  case (Cons r rs1)
  then show ?case
    by (simp split: option.splits sum.splits)
qed

lemma row_price_cases:
  "row_price s = Inr (Some p) \<longleftrightarrow>
     (\<exists>data v. json_loads (cleaned_str s) = Inr data
        \<and> py_in ''sell_min_price'' (strip_recursive data) = Inr True
        \<and> subscript (strip_recursive data) ''sell_min_price'' = Inr v
        \<and> py_float v = Inr p)"
  by (auto simp: row_price_def Let_def split: sum.splits bool.splits)

lemma selling_rows_loop_sources:
  "selling_rows_loop rows acc = Inr prices \<Longrightarrow> p \<in> set prices \<Longrightarrow>
   p \<in> set acc \<or> (\<exists>s. Some s \<in> set rows \<and> row_price s = Inr (Some p))"
proof (induction rows arbitrary: acc)
  case Nil
  then show ?case by simp
next
  case (Cons g rows)
  show ?case
  proof (cases g)
    case None
    with Cons show ?thesis by auto
  next
    case (Some s)
    show ?thesis
    proof (cases "s = []")
      case True
      with Cons Some show ?thesis by auto
    next
      case False
      show ?thesis
      proof (cases "row_price s")
        case (Inl e)
        with Cons.prems Some False have "selling_rows_loop rows acc = Inr prices"
          by (simp split: if_splits)
        from Cons.IH [OF this Cons.prems(2)] show ?thesis by auto
      next
        case (Inr r)
        show ?thesis
        proof (cases r)
          case None
          with Cons.prems Some False Inr have "selling_rows_loop rows acc = Inr prices"
            by simp
          from Cons.IH [OF this Cons.prems(2)] show ?thesis by auto
        next
          case (Some q)
          with Cons.prems \<open>g = Some s\<close> False Inr
          have "selling_rows_loop rows (acc @ [q]) = Inr prices"
            by simp
          from Cons.IH [OF this Cons.prems(2)] Some Inr \<open>g = Some s\<close> show ?thesis by auto
        qed
      qed
    qed
  qed
qed


lemma strip_idem: "strip (strip s) = strip s"
proof -
  define u where "u = dropWhile isspace s"
  define w where "w = dropWhile isspace (rev u)"
  have t: "strip s = rev w"
    by (simp add: strip_def u_def w_def)
  have w_self: "dropWhile isspace w = w"
    by (simp add: w_def)
  have "dropWhile isspace (rev w) = rev w"
  proof (cases "w = []")
    case True
    then show ?thesis by simp
  next
    case False
    obtain pre where pre: "rev u = pre @ w"
      unfolding w_def by (metis takeWhile_dropWhile_id)
    then have "u = rev w @ rev pre"
      by (metis rev_append rev_rev_ident)
    moreover have "rev w \<noteq> []" using False by simp
    ultimately have "hd u = hd (rev w)" and "u \<noteq> []"
      by auto
    moreover have "\<not> isspace (hd u)"
      using \<open>u \<noteq> []\<close> unfolding u_def by (metis hd_dropWhile)
    ultimately show ?thesis
      using \<open>rev w \<noteq> []\<close> by (simp add: dropWhile_eq_self_iff)
  qed
  then show ?thesis
    unfolding t by (simp add: strip_def w_self)
qed

lemma strip_value_strip_recursive:
  "strip_value (strip_recursive (strip_value v)) = strip_recursive (strip_value v)"
  by (cases v) (simp_all add: strip_value_def strip_idem)

lemma set_dict_set: "set (dict_set k v d) \<subseteq> insert (k, v) (set d)"
  by (induction d) auto

lemma set_dict_of:
  "set (foldl (\<lambda>d kv. dict_set (fst kv) (snd kv) d) acc ps) \<subseteq> set acc \<union> set ps"
proof (induction ps arbitrary: acc)
  case Nil
  show ?case by simp
next
  case (Cons p ps)
  have "set (foldl (\<lambda>d kv. dict_set (fst kv) (snd kv) d) (dict_set (fst p) (snd p) acc) ps)
          \<subseteq> set (dict_set (fst p) (snd p) acc) \<union> set ps"
    by (rule Cons.IH)
  also have "\<dots> \<subseteq> insert p (set acc) \<union> set ps"
    using set_dict_set [of "fst p" "snd p" acc] by auto
  finally show ?case by auto
qed

lemma trimmed_strip_recursive: "trimmed (strip_recursive v)"
proof (induction v rule: strip_recursive.induct)
  case (1 kvs)
  show ?case
    unfolding strip_recursive.simps trimmed.simps
  proof
    fix kv
    assume "kv \<in> set (foldl (\<lambda>d kv. dict_set (fst kv) (snd kv) d) []
              (map (\<lambda>kv. (strip (fst kv), strip_recursive (strip_value (snd kv)))) kvs))"
    then have "kv \<in> set (map (\<lambda>kv. (strip (fst kv), strip_recursive (strip_value (snd kv)))) kvs)"
      using set_dict_of by fastforce
    then obtain x where x: "x \<in> set kvs"
      and kv: "kv = (strip (fst x), strip_recursive (strip_value (snd x)))"
      by auto
    show "strip (fst kv) = fst kv \<and> strip_value (snd kv) = snd kv \<and> trimmed (snd kv)"
      using "1.IH" [OF x] by (simp add: kv strip_idem strip_value_strip_recursive)
  qed
next
  case (2 xs)
  then show ?case by simp
qed simp_all


lemma replace_semicolon: "replace '';'' [] s = filter (\<lambda>c. c \<noteq> CHR '';'') s"
  by (induction s) auto

lemma replace_escape:
  "CHR ''&'' \<notin> set s \<Longrightarrow> replace ''&quot;'' [CHR 0x22] (escape_quotes s) = s"
  by (induction s) (auto simp: escape_quotes_def)

lemma cleaned_no_semicolon: "CHR '';'' \<notin> set (cleaned_str s)"
  by (simp add: cleaned_str_def replace_semicolon)

lemma cleaned_escape:
  "CHR ''&'' \<notin> set s \<Longrightarrow> CHR '';'' \<notin> set s \<Longrightarrow> cleaned_str (escape_quotes s) = s"
  by (auto simp: cleaned_str_def replace_escape replace_semicolon filter_id_conv)

text \<open>
  C5. For the \<open>None\<close> of a failed fetch, for the empty text, and for a text whose tree
  has no \<open>table\<close> of class \<open>list_tb\<close>, \<open>parse_listings\<close> returns the empty list.
\<close>

theorem parse_listings_empty_input:
  "parse_listings BeautifulSoup None = Inr []
   \<and> parse_listings BeautifulSoup (Some []) = Inr []
   \<and> (find_tag ''table'' ''list_tb'' (BeautifulSoup h) = None \<longrightarrow>
        parse_listings BeautifulSoup (Some h) = Inr [])"
  by (simp add: parse_listings_def)

theorem parse_listings_empty_input_witness:
  "find_tag ''table'' ''list_tb''
     ((\<lambda>h. Tag ''[document]'' [] [] [Tag ''table'' [''other''] [] [NavigableString h]]) ''sold out'')
     = None
   \<and> parse_listings
        (\<lambda>h. Tag ''[document]'' [] [] [Tag ''table'' [''other''] [] [NavigableString h]])
        (Some ''sold out'') = Inr []"
  using parse_listings_empty_input
    [of "\<lambda>h. Tag ''[document]'' [] [] [Tag ''table'' [''other''] [] [NavigableString h]]"
        "''sold out''"]
  by (simp add: find_tag_def find_all_def)

text \<open>
  A row whose payload fails to decode, lacks the key, or holds a price for which
  \<open>float()\<close> raises \<open>ValueError\<close> or \<open>TypeError\<close> can be taken out of the page without
  changing the result.
\<close>

lemma bad_row_contributes_nothing:
  assumes "json_loads (cleaned_str s) = Inl JSONDecodeError
         \<or> (\<exists>data. json_loads (cleaned_str s) = Inr data
               \<and> py_in ''sell_min_price'' (strip_recursive data) = Inr False)
         \<or> (\<exists>data v e. json_loads (cleaned_str s) = Inr data
               \<and> subscript (strip_recursive data) ''sell_min_price'' = Inr v
               \<and> py_in ''sell_min_price'' (strip_recursive data) = Inr True
               \<and> py_float v = Inl e \<and> (e = ValueError \<or> e = TypeError))"
  shows "selling_rows_loop (rs1 @ Some s # rs2) acc = selling_rows_loop (rs1 @ rs2) acc"
proof (rule selling_rows_loop_skip)
  from assms
  have "(\<exists>e. row_price s = Inl e \<and> caught e) \<or> row_price s = Inr None"
    by (auto simp: row_price_def caught_def Let_def)
  then show "Some s = None \<or> Some s = Some [] \<or>
        (\<exists>s' e. Some s = Some s' \<and> row_price s' = Inl e \<and> caught e) \<or>
        (\<exists>s'. Some s = Some s' \<and> row_price s' = Inr None)"
    by auto
qed

text \<open>
  The third scenario of the specification: one corrupted row and two rows with the prices
  80.00 and 75.00 (the second with escaped quotes, a stray separator and blanks).
\<close>

lemma scenario_C:
  \<open>parse_listings
     (\<lambda>h. listing_page
        [''{"sell_min_price": "80.00"'',
         ''{"sell_min_price": "80.00", "id": 7}'',
         ''{&quot;sell_min_price&quot;: &quot; 75.00 &quot;;}''])
     (Some ''<html>'') = Inr [Fin 80, Fin 75]\<close>
  \<open>min_from (Fin 80) [Fin 75] = Fin 75\<close>
  by (simp_all add: parse_listing_page row_80 row_75 row_bad caught_def)

text \<open>
  C6. A row whose price is an integer beyond the range of a float makes \<open>float()\<close> raise
  \<open>OverflowError\<close>, which the handler does not name: \<open>parse_listings\<close> raises, and the
  offer of the well-formed row before it is lost with it.
\<close>

theorem overflowing_price_aborts_parse:
  \<open>parse_listings
     (\<lambda>h. listing_page
        [''{"sell_min_price": "80.00"'',
         ''{"sell_min_price": "80.00", "id": 7}'',
         ''{"sell_min_price": 1000000000000000000000000000000000000000000000000000000000000000000000000000000000000000000000000000000000000000000000000000000000000000000000000000000000000000000000000000000000000000000000000000000000000000000000000000000000000000000000000000000000000000000000000000000000000000000000000000000000000000000000}''])
     (Some ''<html>'') = Inl OverflowError\<close>
  by (simp add: parse_listing_page row_80 row_bad row_big caught_def)

text \<open>
  C7, as stated, fails: a string that is an element of an array is returned as it is.
\<close>

theorem strings_in_arrays_are_not_stripped:
  \<open>json_loads (cleaned_str ''{&quot; tags &quot;: [&quot; rare &quot;]}'')
     = Inr (JObject [('' tags '', JArray [JString '' rare ''])])
   \<and> strip_recursive (JObject [('' tags '', JArray [JString '' rare ''])])
     = JObject [(''tags'', JArray [JString '' rare ''])]
   \<and> \<not> trimmed_everywhere (strip_recursive (JObject [('' tags '', JArray [JString '' rare ''])]))\<close>
  by (simp add: cleaned_str_def decoder_simps strip_def isspace_def strip_value_def)

text \<open>
  C7, amended. The cleaned payload has no separator character, the quote entities of a
  text without \<open>&\<close> and separator are un-escaped to that text, and in the result of
  \<open>_strip_recursive\<close> every key of a dictionary and every string that is the value of
  a key is stripped, at any depth.
\<close>

theorem strip_recursive_trims_dictionaries:
  "CHR '';'' \<notin> set (cleaned_str s)
   \<and> (CHR ''&'' \<notin> set s \<and> CHR '';'' \<notin> set s \<longrightarrow> cleaned_str (escape_quotes s) = s)
   \<and> trimmed (strip_recursive v)"
  by (simp add: cleaned_no_semicolon cleaned_escape trimmed_strip_recursive)

theorem strip_recursive_trims_dictionaries_witness:
  \<open>cleaned_str (escape_quotes ''{" a ": " x "}'') = ''{" a ": " x "}''
   \<and> trimmed (strip_recursive (JObject [('' a '', JString '' x ''), (''b'', JArray [JObject [(''c '', JString ''d '')]])]))
   \<and> strip_recursive (JObject [('' a '', JString '' x ''), (''b'', JArray [JObject [(''c '', JString ''d '')]])])
      = JObject [(''a'', JString ''x''), (''b'', JArray [JObject [(''c'', JString ''d'')]])]\<close>
  using strip_recursive_trims_dictionaries
    [of \<open>''{" a ": " x "}''\<close>
        "JObject [('' a '', JString '' x ''), (''b'', JArray [JObject [(''c '', JString ''d '')]])]"]
  by (simp add: strip_def isspace_def strip_value_def)

text \<open>C8, as stated, fails: a negative price is appended like any other.\<close>

theorem negative_price_is_emitted:
  \<open>parse_listings (\<lambda>h. listing_page [''{"sell_min_price": "-5"}'']) (Some ''<html>'')
     = Inr [Fin (- 5)]
   \<and> float_lt (Fin (- 5)) (Fin 0)\<close>
  by (simp add: parse_listing_page row_neg)

text \<open>
  C8, amended. Every price that \<open>parse_listings\<close> returns is what \<open>float()\<close> gives for
  the \<open>sell_min_price\<close> of the decoded, stripped payload of one selling row; a row for
  which the conversion raises \<open>ValueError\<close> or \<open>TypeError\<close> is dropped; negative,
  infinite and not-a-number values pass the conversion.
\<close>

theorem offers_are_float_of_price:
  "(parse_listings BeautifulSoup html = Inr prices \<and> p \<in> set prices \<longrightarrow>
      (\<exists>h listings_table row s data v.
         html = Some h
       \<and> find_tag ''table'' ''list_tb'' (BeautifulSoup h) = Some listings_table
       \<and> row \<in> set (find_all ''tr'' ''selling'' listings_table)
       \<and> attr_get row ''data-goods-info'' = Some s
       \<and> json_loads (cleaned_str s) = Inr data
       \<and> subscript (strip_recursive data) ''sell_min_price'' = Inr v
       \<and> py_float v = Inr p))
   \<and> (row_price s' = Inl ValueError \<or> row_price s' = Inl TypeError \<longrightarrow>
        selling_rows_loop (rs1 @ Some s' # rs2) acc = selling_rows_loop (rs1 @ rs2) acc)
   \<and> py_float (JString ''-5'') = Inr (Fin (- 5))
   \<and> py_float (JString ''inf'') = Inr PosInf
   \<and> py_float (JFloat NaN) = Inr NaN"
proof (intro conjI impI)
  assume a: "parse_listings BeautifulSoup html = Inr prices \<and> p \<in> set prices"
  then obtain h where h: "html = Some h" "h \<noteq> []"
    by (cases html) (auto simp: parse_listings_def split: if_splits)
  with a obtain t where t: "find_tag ''table'' ''list_tb'' (BeautifulSoup h) = Some t"
    by (cases "find_tag ''table'' ''list_tb'' (BeautifulSoup h)") (auto simp: parse_listings_def)
  with a h have loop: "selling_rows_loop
       (map (\<lambda>row. attr_get row ''data-goods-info'') (find_all ''tr'' ''selling'' t)) [] = Inr prices"
    by (simp add: parse_listings_def)
  have pin: "p \<in> set prices"
    using a by simp
  from selling_rows_loop_sources [OF loop pin]
  obtain s where s: "Some s \<in> set (map (\<lambda>row. attr_get row ''data-goods-info'') (find_all ''tr'' ''selling'' t))"
    and rp: "row_price s = Inr (Some p)"
    by auto
  from s obtain row where "row \<in> set (find_all ''tr'' ''selling'' t)"
    and "attr_get row ''data-goods-info'' = Some s"
    by auto
  with rp h t show "\<exists>h listings_table row s data v.
         html = Some h
       \<and> find_tag ''table'' ''list_tb'' (BeautifulSoup h) = Some listings_table
       \<and> row \<in> set (find_all ''tr'' ''selling'' listings_table)
       \<and> attr_get row ''data-goods-info'' = Some s
       \<and> json_loads (cleaned_str s) = Inr data
       \<and> subscript (strip_recursive data) ''sell_min_price'' = Inr v
       \<and> py_float v = Inr p"
    unfolding row_price_cases by blast
next
  assume "row_price s' = Inl ValueError \<or> row_price s' = Inl TypeError"
  then show "selling_rows_loop (rs1 @ Some s' # rs2) acc = selling_rows_loop (rs1 @ rs2) acc"
    by (intro selling_rows_loop_skip) (auto simp: caught_def)
qed (simp_all add: float_simps)

theorem offers_are_float_of_price_witness:
  \<open>parse_listings
     (\<lambda>h. listing_page
        [''{"sell_min_price": "-5"}'', ''{"sell_min_price": "inf"}'', ''{"sell_min_price": NaN}''])
     (Some ''<html>'') = Inr [Fin (- 5), PosInf, NaN]
   \<and> (\<exists>h listings_table row s data v.
         Some ''<html>'' = Some h
       \<and> find_tag ''table'' ''list_tb''
            ((\<lambda>h. listing_page
               [''{"sell_min_price": "-5"}'', ''{"sell_min_price": "inf"}'',
                ''{"sell_min_price": NaN}'']) h) = Some listings_table
       \<and> row \<in> set (find_all ''tr'' ''selling'' listings_table)
       \<and> attr_get row ''data-goods-info'' = Some s
       \<and> json_loads (cleaned_str s) = Inr data
       \<and> subscript (strip_recursive data) ''sell_min_price'' = Inr v
       \<and> py_float v = Inr (Fin (- 5)))\<close>
proof -
  have e: \<open>parse_listings
     (\<lambda>h. listing_page
        [''{"sell_min_price": "-5"}'', ''{"sell_min_price": "inf"}'', ''{"sell_min_price": NaN}''])
     (Some ''<html>'') = Inr [Fin (- 5), PosInf, NaN]\<close>
    by (simp add: parse_listing_page row_neg row_inf row_nan)
  have m: "Fin (- 5) \<in> set [Fin (- 5), PosInf, NaN]"
    by simp
  from offers_are_float_of_price
    [of \<open>\<lambda>h. listing_page
        [''{"sell_min_price": "-5"}'', ''{"sell_min_price": "inf"}'', ''{"sell_min_price": NaN}'']\<close>
        "Some ''<html>''" "[Fin (- 5), PosInf, NaN]" "Fin (- 5)"] e m
  show ?thesis by blast
qed

text \<open>
  Two iterations over a configuration of two items, each sample being the page of one
  listing at 80.00.
\<close>

lemma reachable_two_samples:
  assumes "length cfg = 2"
  shows \<open>reachable (\<lambda>h. listing_page [''{"sell_min_price": "80.00", "id": 7}'']) cfg
           (monitor_step [Fin 80] 2 (monitor_step [Fin 80] 1 (initial cfg)))\<close>
proof -
  have p: \<open>poll (\<lambda>h. listing_page [''{"sell_min_price": "80.00", "id": 7}'']) (Some ''<html>'') now s
           = Inr (monitor_step [Fin 80] now s)\<close> for now s
    by (simp add: poll_def parse_listing_page row_80)
  have c0: "cursor (initial cfg) < length (items_data (initial cfg))"
    using assms by (simp add: initial_def)
  have r1: \<open>reachable (\<lambda>h. listing_page [''{"sell_min_price": "80.00", "id": 7}'']) cfg
             (monitor_step [Fin 80] 1 (initial cfg))\<close>
    by (rule reachable.step [OF reachable.start c0 p])
  have c1: "cursor (monitor_step [Fin 80] 1 (initial cfg))
              < length (items_data (monitor_step [Fin 80] 1 (initial cfg)))"
    using assms
    by (simp add: monitor_step_def refresh_def process_item_length initial_def)
  show ?thesis
    by (rule reachable.step [OF r1 c1 p])
qed

text \<open>
  C4, as stated, fails: two items share the name AK, with the thresholds 100 and 50. The
  first iteration adds the name for the first item, the second removes it for the second
  item, and the first item stays recorded at 80, below its threshold, with no alarm.
\<close>

theorem shared_name_breaks_alarm_invariant:
  \<open>reachable (\<lambda>h. listing_page [''{"sell_min_price": "80.00", "id": 7}''])
     [(''AK'', ''u1'', Fin 100), (''AK'', ''u2'', Fin 50)]
     (monitor_step [Fin 80] 2 (monitor_step [Fin 80] 1
        (initial [(''AK'', ''u1'', Fin 100), (''AK'', ''u2'', Fin 50)])))
   \<and> active_alarms (monitor_step [Fin 80] 2 (monitor_step [Fin 80] 1
        (initial [(''AK'', ''u1'', Fin 100), (''AK'', ''u2'', Fin 50)]))) = {}
   \<and> items_data (monitor_step [Fin 80] 2 (monitor_step [Fin 80] 1
        (initial [(''AK'', ''u1'', Fin 100), (''AK'', ''u2'', Fin 50)]))) ! 0
      = \<lparr>display_name = ''AK'', url = ''u1'', alarm_price = Fin 100,
         lowest_price = Some (Fin 80), last_updated = Some 1\<rparr>
   \<and> float_le (Fin 80) (Fin 100)\<close>
proof -
  have "length [(''AK'', ''u1'', Fin 100 :: pyfloat), (''AK'', ''u2'', Fin 50)] = 2"
    by simp
  then have \<open>reachable (\<lambda>h. listing_page [''{"sell_min_price": "80.00", "id": 7}''])
     [(''AK'', ''u1'', Fin 100), (''AK'', ''u2'', Fin 50)]
     (monitor_step [Fin 80] 2 (monitor_step [Fin 80] 1
        (initial [(''AK'', ''u1'', Fin 100), (''AK'', ''u2'', Fin 50)])))\<close>
    by (rule reachable_two_samples)
  moreover have "active_alarms (monitor_step [Fin 80] 2 (monitor_step [Fin 80] 1
        (initial [(''AK'', ''u1'', Fin 100), (''AK'', ''u2'', Fin 50)]))) = {}
   \<and> items_data (monitor_step [Fin 80] 2 (monitor_step [Fin 80] 1
        (initial [(''AK'', ''u1'', Fin 100), (''AK'', ''u2'', Fin 50)]))) ! 0
      = \<lparr>display_name = ''AK'', url = ''u1'', alarm_price = Fin 100,
         lowest_price = Some (Fin 80), last_updated = Some 1\<rparr>
   \<and> float_le (Fin 80) (Fin 100)"
    by (simp add: monitor_step_def refresh_def process_item_def initial_def new_item_def Let_def)
  ultimately show ?thesis
    by blast
qed

theorem alarm_set_matches_recorded_price_witness:
  \<open>reachable (\<lambda>h. listing_page [''{"sell_min_price": "80.00", "id": 7}''])
     [(''AK'', ''u1'', Fin 100), (''M4'', ''u2'', Fin 50)]
     (monitor_step [Fin 80] 2 (monitor_step [Fin 80] 1
        (initial [(''AK'', ''u1'', Fin 100), (''M4'', ''u2'', Fin 50)])))
   \<and> distinct (map fst [(''AK'', ''u1'', Fin 100 :: pyfloat), (''M4'', ''u2'', Fin 50)])
   \<and> map display_name (items_data (monitor_step [Fin 80] 2 (monitor_step [Fin 80] 1
        (initial [(''AK'', ''u1'', Fin 100), (''M4'', ''u2'', Fin 50)])))) = [''AK'', ''M4'']
   \<and> active_alarms (monitor_step [Fin 80] 2 (monitor_step [Fin 80] 1
        (initial [(''AK'', ''u1'', Fin 100), (''M4'', ''u2'', Fin 50)]))) = {''AK''}
   \<and> map lowest_price (items_data (monitor_step [Fin 80] 2 (monitor_step [Fin 80] 1
        (initial [(''AK'', ''u1'', Fin 100), (''M4'', ''u2'', Fin 50)]))))
       = [Some (Fin 80), Some (Fin 80)]\<close>
proof -
  have l: "length [(''AK'', ''u1'', Fin 100 :: pyfloat), (''M4'', ''u2'', Fin 50)] = 2"
    by simp
  have d: "distinct (map fst [(''AK'', ''u1'', Fin 100 :: pyfloat), (''M4'', ''u2'', Fin 50)])"
    by simp
  have "map display_name (items_data (monitor_step [Fin 80] 2 (monitor_step [Fin 80] 1
        (initial [(''AK'', ''u1'', Fin 100), (''M4'', ''u2'', Fin 50)])))) = [''AK'', ''M4'']
   \<and> active_alarms (monitor_step [Fin 80] 2 (monitor_step [Fin 80] 1
        (initial [(''AK'', ''u1'', Fin 100), (''M4'', ''u2'', Fin 50)]))) = {''AK''}
   \<and> map lowest_price (items_data (monitor_step [Fin 80] 2 (monitor_step [Fin 80] 1
        (initial [(''AK'', ''u1'', Fin 100), (''M4'', ''u2'', Fin 50)]))))
       = [Some (Fin 80), Some (Fin 80)]"
    using alarm_set_matches_recorded_price [OF reachable_two_samples [OF l] d]
    by (simp add: monitor_step_def refresh_def process_item_def initial_def new_item_def Let_def)
  with reachable_two_samples [OF l] d show ?thesis
    by blast
qed

section \<open>Outcomes of the startup\<close>

text \<open>
  C9, as stated, fails: a configuration without the key \<open>items\<close>, and one whose fields
  have the wrong types, start the watcher.
\<close>

theorem malformed_configuration_starts_polling:
  "startup (Loaded [(''item'', TArray [TTable [(''display_name'', TString ''AK''),
                                               (''url'', TString ''u''),
                                               (''alarm_price'', TInt 100)]])])
     = ([''Starting Buff Market watcher...''], Inr [])
   \<and> startup (Loaded [(''items'', TArray [TTable [(''display_name'', TInt 7),
                                                (''url'', TBool True),
                                                (''alarm_price'', TString ''cheap'')]])])
     = ([''Starting Buff Market watcher...''], Inr [(TInt 7, TBool True, TString ''cheap'')])"
  by (simp add: startup_def load_config_def)

text \<open>
  C9, amended. A missing file is reported and ends the process with status 1. A file
  that cannot be read or decoded, and an item that lacks a key, end it by an uncaught
  exception before the watcher starts. A configuration without \<open>items\<close> starts it with
  no items, and the three fields are taken as they are.
\<close>

theorem startup_outcomes:
  "startup Missing =
     ([''Error: Configuration file '' @ [CHR 0x27] @ ''config.toml'' @ [CHR 0x27] @ '' not found.''],
      Inl (SystemExit 1))
   \<and> exit_status (SystemExit 1) = 1
   \<and> startup Unreadable = ([], Inl OSError) \<and> exit_status OSError = 1
   \<and> startup Undecodable = ([], Inl TomlDecodeError) \<and> exit_status TomlDecodeError = 1
   \<and> (map_of config ''items'' = Some (TArray items) \<and> build_items items = Inl e \<longrightarrow>
        startup (Loaded config) = ([], Inl e))
   \<and> (map_of kvs key = None \<longrightarrow> item_get (TTable kvs) key = Inl KeyError)
   \<and> (map_of config ''items'' = None \<longrightarrow>
        startup (Loaded config) = ([''Starting Buff Market watcher...''], Inr []))
   \<and> startup (Loaded [(''items'', TArray [TTable [(''display_name'', n), (''url'', u),
                                                (''alarm_price'', a)]])])
       = ([''Starting Buff Market watcher...''], Inr [(n, u, a)])"
  by (simp add: startup_def load_config_def)

theorem startup_outcomes_witness:
  "map_of [(''items'', TArray [TTable [(''display_name'', TString ''AK'')]])] ''items''
     = Some (TArray [TTable [(''display_name'', TString ''AK'')]])
   \<and> build_items [TTable [(''display_name'', TString ''AK'')]] = Inl KeyError
   \<and> startup (Loaded [(''items'', TArray [TTable [(''display_name'', TString ''AK'')]])])
       = ([], Inl KeyError)
   \<and> map_of [(''title'', TString ''watch list'')] ''items'' = None
   \<and> startup (Loaded [(''title'', TString ''watch list'')])
       = ([''Starting Buff Market watcher...''], Inr [])"
  using startup_outcomes
    [of "[(''items'', TArray [TTable [(''display_name'', TString ''AK'')]])]"
        "[TTable [(''display_name'', TString ''AK'')]]" KeyError]
    startup_outcomes [of "[(''title'', TString ''watch list'')]"]
  by simp

end
